theory Spec2Isabelle
  imports Main
begin

section \<open>Errors, promises and JavaScript values\<close>

text \<open>
  The dispatcher of \<^verbatim>\<open>src/Resolution.ts\<close> is embedded here.  A call of an
  \<^verbatim>\<open>async\<close> method is modelled by the way its promise settles; a synchronous method
  by a sum, \<open>Inl\<close> being the exception it throws.  An exception thrown inside an
  \<^verbatim>\<open>async\<close> method rejects its promise.
\<close>

text \<open>
  Modelled from the spec: the error codes of \<^verbatim>\<open>./resolutionError\<close>, a module the
  dispatcher imports; the five codes are the closed taxonomy of the specification.
\<close>

datatype ResolutionErrorCode =
    UnsupportedDomain
  | UnsupportedNetwork
  | UnregisteredDomain
  | UnspecifiedCurrency
  | RecordNotFound

text \<open>The options object of a \<^verbatim>\<open>ResolutionError\<close>, such as \<^verbatim>\<open>{domain}\<close>: keys with their values.\<close>

type_synonym options = "(string \<times> string) list"

text \<open>
  What can be thrown: a \<^verbatim>\<open>ResolutionError\<close> with its code and options, the
  \<^verbatim>\<open>TypeError\<close> that JavaScript raises when a property of \<^verbatim>\<open>undefined\<close> is read, and
  any other error a backend may raise (a transport failure, say), named by its message.
\<close>

datatype error =
    ResolutionError ResolutionErrorCode options
  | TypeError
  | OtherError string

text \<open>The test \<^verbatim>\<open>error instanceof ResolutionError\<close>.\<close>

fun isResolutionError :: "error \<Rightarrow> bool" where
  "isResolutionError (ResolutionError c opts) = True"
| "isResolutionError TypeError = False"
| "isResolutionError (OtherError msg) = False"

text \<open>A promise, by its fate: fulfilled with a value, rejected with an error, or never settled.\<close>

datatype 'a promise = Fulfilled 'a | Rejected error | Pending

text \<open>\<^verbatim>\<open>await p\<close> followed by the rest of an \<^verbatim>\<open>async\<close> body.\<close>

definition await :: "'a promise \<Rightarrow> ('a \<Rightarrow> 'b promise) \<Rightarrow> 'b promise" where
  "await p body =
     (case p of Fulfilled v \<Rightarrow> body v | Rejected e \<Rightarrow> Rejected e | Pending \<Rightarrow> Pending)"

text \<open>
  The values \<^verbatim>\<open>isSupportedDomainInNetwork\<close> can return: \<^verbatim>\<open>undefined\<close> or a boolean.
\<close>

datatype jsvalue = JSUndefined | JSBoolean bool

fun truthy :: "jsvalue \<Rightarrow> bool" where
  "truthy JSUndefined = False"
| "truthy (JSBoolean b) = b"

text \<open>Truthiness of a string that may be \<^verbatim>\<open>null\<close> or \<^verbatim>\<open>undefined\<close>: the empty string is falsy.\<close>

fun truthyString :: "string option \<Rightarrow> bool" where
  "truthyString None = False"
| "truthyString (Some s) = (s \<noteq> [])"

section \<open>Types of the library\<close>

text \<open>
  Modelled from the spec: \<^verbatim>\<open>ResolutionResponse\<close> and \<^verbatim>\<open>UnclaimedDomainResponse\<close> of
  \<^verbatim>\<open>./types\<close>: an \<^verbatim>\<open>addresses\<close> mapping from currency ticker to address and a
  \<^verbatim>\<open>meta\<close> block with an \<^verbatim>\<open>owner\<close> that may be \<^verbatim>\<open>null\<close>; the unclaimed sentinel is
  \<^verbatim>\<open>{ addresses: {}, meta: { owner: null } }\<close>.
\<close>

record Meta =
  meta_owner :: "string option"

record ResolutionResponse =
  addresses :: "string \<rightharpoonup> string"
  meta :: Meta

definition UnclaimedDomainResponse :: ResolutionResponse where
  "UnclaimedDomainResponse = \<lparr>addresses = Map.empty, meta = \<lparr>meta_owner = None\<rparr>\<rparr>"

text \<open>
  Modelled from the spec: the capability interface \<^verbatim>\<open>NamingService\<close> of
  \<^verbatim>\<open>./namingService\<close>, which every backend implements.  The two support tests are
  total and cannot fail; \<^verbatim>\<open>namehash\<close> and \<^verbatim>\<open>serviceName\<close> are synchronous; the other
  operations return promises.
\<close>

record NamingService =
  ns_isSupportedDomain :: "string \<Rightarrow> bool"
  ns_isSupportedNetwork :: bool
  ns_resolve :: "string \<Rightarrow> ResolutionResponse option promise"
  ns_address :: "string \<Rightarrow> string \<Rightarrow> string promise"
  ns_owner :: "string \<Rightarrow> string option promise"
  ns_record :: "string \<Rightarrow> string \<Rightarrow> string promise"
  ns_namehash :: "string \<Rightarrow> error + string"
  ns_serviceName :: "string \<Rightarrow> error + string"

text \<open>The ENS backend alone has \<^verbatim>\<open>reverse\<close>; the other backends are plain naming services.\<close>

record Ens = NamingService +
  ens_reverse :: "string \<Rightarrow> string \<Rightarrow> string promise"

type_synonym Zns = NamingService
type_synonym Cns = NamingService
type_synonym Udapi = NamingService

text \<open>
  Modelled from the spec: the configuration types of \<^verbatim>\<open>./types\<close>.  A per-protocol
  field is a boolean or a \<^verbatim>\<open>{url, network}\<close> pair.
\<close>

datatype NamingServiceSource = SourceBoolean bool | SourceDefinition string string

fun truthySource :: "NamingServiceSource \<Rightarrow> bool" where
  "truthySource (SourceBoolean b) = b"
| "truthySource (SourceDefinition u n) = True"

text \<open>
  A property of an object is absent, present with the value \<^verbatim>\<open>undefined\<close>, or present
  with a value.  Reading an absent property gives \<^verbatim>\<open>undefined\<close> too, so the test
  \<^verbatim>\<open>=== undefined\<close> holds in the first two cases, and both are falsy.
\<close>

datatype property = Absent | Undefined | Value NamingServiceSource

fun isUndefined :: "property \<Rightarrow> bool" where
  "isUndefined Absent = True"
| "isUndefined Undefined = True"
| "isUndefined (Value v) = False"


text \<open>
  An object is extensible unless its owner has closed it: after
  \<^verbatim>\<open>Object.preventExtensions\<close> or \<^verbatim>\<open>Object.seal\<close> no property can be added to it, and
  after \<^verbatim>\<open>Object.freeze\<close> no property can be written either.
\<close>

datatype integrity = Extensible | NonExtensible | Frozen

record Blockchain =
  cfg_integrity :: integrity
  cfg_ens :: property
  cfg_zns :: property
  cfg_cns :: property

record API =
  url :: string

text \<open>
  Objects are passed by reference.  The per-protocol objects live in a store, a list
  of objects addressed by position; the \<^verbatim>\<open>blockchain\<close> option is a boolean or the
  address of such an object.
\<close>

type_synonym ref = nat
type_synonym store = "Blockchain list"

datatype BlockchainOption = BlockchainBoolean bool | BlockchainObject ref

record Config =
  cfg_blockchain :: "BlockchainOption option"
  cfg_api :: "API option"

text \<open>
  The constructors of the four backends and the constant \<^verbatim>\<open>DefaultAPI\<close> are not part
  of the dispatcher: they are parameters of the model.
\<close>

record Env =
  newEns :: "NamingServiceSource \<Rightarrow> Ens"
  newZns :: "NamingServiceSource \<Rightarrow> Zns"
  newCns :: "NamingServiceSource \<Rightarrow> Cns"
  newUdapi :: "string \<Rightarrow> Udapi"
  DefaultAPI :: API

section \<open>The dispatcher\<close>

record Resolution =
  blockchain :: bool
  ens :: "Ens option"
  zns :: "Zns option"
  cns :: "Cns option"
  api :: "Udapi option"

subsection \<open>Construction\<close>

text \<open>\<^verbatim>\<open>blockchain = {}\<close>: a fresh object, at the first free address.\<close>

definition alloc :: "store \<Rightarrow> Blockchain \<Rightarrow> ref \<times> store" where
  "alloc h obj = (length h, h @ [obj])"

definition lookup :: "store \<Rightarrow> ref \<Rightarrow> Blockchain option" where
  "lookup h p = (if p < length h then Some (h ! p) else None)"

text \<open>
  The assignment \<^verbatim>\<open>blockchain.x = v\<close>.  The module is strict code: adding a property
  to an object that is not extensible, or writing a property of a frozen object, raises
  a \<^verbatim>\<open>TypeError\<close>.
\<close>

fun assign :: "integrity \<Rightarrow> property \<Rightarrow> NamingServiceSource \<Rightarrow> error + property" where
  "assign Extensible f v = Inr (Value v)"
| "assign NonExtensible Absent v = Inl TypeError"
| "assign NonExtensible f v = Inr (Value v)"
| "assign Frozen f v = Inl TypeError"

text \<open>\<^verbatim>\<open>if (blockchain.x === undefined) blockchain.x = true\<close>, for one field.\<close>

definition setDefault :: "integrity \<Rightarrow> property \<Rightarrow> error + property" where
  "setDefault i f = (if isUndefined f then assign i f (SourceBoolean True) else Inr f)"

text \<open>
  Lines 45 to 53: the three guarded assignments in their order.  The result is the
  object as the assignments leave it, with the error of the first one that throws;
  the assignments before it have been made.
\<close>

definition setDefaults :: "Blockchain \<Rightarrow> error option \<times> Blockchain" where
  "setDefaults b =
     (case setDefault (cfg_integrity b) (cfg_ens b) of
        Inl e \<Rightarrow> (Some e, b)
      | Inr f1 \<Rightarrow>
          (let b1 = b\<lparr>cfg_ens := f1\<rparr>
           in case setDefault (cfg_integrity b1) (cfg_zns b1) of
                Inl e \<Rightarrow> (Some e, b1)
              | Inr f2 \<Rightarrow>
                  (let b2 = b1\<lparr>cfg_zns := f2\<rparr>
                   in case setDefault (cfg_integrity b2) (cfg_cns b2) of
                        Inl e \<Rightarrow> (Some e, b2)
                      | Inr f3 \<Rightarrow> (None, b2\<lparr>cfg_cns := f3\<rparr>))))"

text \<open>\<^verbatim>\<open>if (source) this.x = new X(source)\<close>: the backend is built when its field is truthy.\<close>

definition construct :: "(NamingServiceSource \<Rightarrow> 'b) \<Rightarrow> property \<Rightarrow> 'b option" where
  "construct new source =
     (case source of
        Value s \<Rightarrow> if truthySource s then Some (new s) else None
      | _ \<Rightarrow> None)"

text \<open>
  The parameter \<^verbatim>\<open>{ blockchain = true, api = DefaultAPI } = {}\<close>: the argument is
  \<open>None\<close> when \<^verbatim>\<open>new Resolution()\<close> is called with no argument, and an absent
  option takes its default.
\<close>

definition blockchainParam :: "Config option \<Rightarrow> BlockchainOption" where
  "blockchainParam arg =
     (case arg of
        None \<Rightarrow> BlockchainBoolean True
      | Some config \<Rightarrow>
          (case cfg_blockchain config of None \<Rightarrow> BlockchainBoolean True | Some b \<Rightarrow> b))"

definition apiParam :: "Env \<Rightarrow> Config option \<Rightarrow> API" where
  "apiParam env arg =
     (case arg of
        None \<Rightarrow> DefaultAPI env
      | Some config \<Rightarrow> (case cfg_api config of None \<Rightarrow> DefaultAPI env | Some a \<Rightarrow> a))"

text \<open>Truthiness of the \<^verbatim>\<open>blockchain\<close> option: an object is truthy, also an empty one.\<close>

fun truthyBlockchain :: "BlockchainOption \<Rightarrow> bool" where
  "truthyBlockchain (BlockchainBoolean b) = b"
| "truthyBlockchain (BlockchainObject p) = True"

text \<open>
  The constructor, with the store it runs in.  In the truthy branch the option is
  either \<^verbatim>\<open>true\<close>, which \<^verbatim>\<open>blockchain == true\<close> replaces by a fresh empty object, or
  an object: the variable \<^verbatim>\<open>blockchain\<close> then holds the address \<open>p\<close>, and the three
  assignments write through it.  The result is the new dispatcher, or the error the
  constructor throws, and the store after the call; \<open>None\<close> is for an address that
  names no object of the store, which no JavaScript program can pass.
\<close>

definition constructor ::
  "Env \<Rightarrow> store \<Rightarrow> Config option \<Rightarrow> ((error + Resolution) \<times> store) option" where
  "constructor env h arg =
     (if truthyBlockchain (blockchainParam arg)
      then
        (let (p, h1) = (case blockchainParam arg of
                          BlockchainBoolean t \<Rightarrow>
                            alloc h \<lparr>cfg_integrity = Extensible, cfg_ens = Absent,
                                     cfg_zns = Absent, cfg_cns = Absent\<rparr>
                        | BlockchainObject q \<Rightarrow> (q, h))
         in case lookup h1 p of
              None \<Rightarrow> None
            | Some b \<Rightarrow>
                (case setDefaults b of
                   (Some e, b') \<Rightarrow> Some (Inl e, h1[p := b'])
                 | (None, b') \<Rightarrow>
                     Some (Inr \<lparr>blockchain = True,
                                 ens = construct (newEns env) (cfg_ens b'),
                                 zns = construct (newZns env) (cfg_zns b'),
                                 cns = construct (newCns env) (cfg_cns b'),
                                 api = None\<rparr>, h1[p := b'])))
      else
        Some (Inr \<lparr>blockchain = False, ens = None, zns = None, cns = None,
                    api = Some (newUdapi env (url (apiParam env arg)))\<rparr>, h))"

subsection \<open>Backend selection\<close>

text \<open>
  \<^verbatim>\<open>getNamingMethod\<close>: the array of backends, some of them \<^verbatim>\<open>undefined\<close>, and the
  first element that is defined and supports the domain; \<^verbatim>\<open>undefined\<close> when there is none.
\<close>

definition methods :: "Resolution \<Rightarrow> NamingService option list" where
  "methods this =
     (if blockchain this
      then [map_option NamingService.truncate (ens this), zns this, cns this]
      else [api this])"

definition getNamingMethod :: "Resolution \<Rightarrow> string \<Rightarrow> NamingService option" where
  "getNamingMethod this domain =
     (case List.find
             (\<lambda>method. case method of None \<Rightarrow> False | Some m \<Rightarrow> ns_isSupportedDomain m domain)
             (methods this) of
        None \<Rightarrow> None
      | Some method \<Rightarrow> method)"

definition getNamingMethodOrThrow :: "Resolution \<Rightarrow> string \<Rightarrow> error + NamingService" where
  "getNamingMethodOrThrow this domain =
     (case getNamingMethod this domain of
        None \<Rightarrow> Inl (ResolutionError UnsupportedDomain [(''domain'', domain)])
      | Some method \<Rightarrow> Inr method)"

subsection \<open>Public operations\<close>

text \<open>An \<^verbatim>\<open>async\<close> body that starts with \<^verbatim>\<open>getNamingMethodOrThrow\<close>: a throw rejects the promise.\<close>

definition withMethodOrThrow ::
  "Resolution \<Rightarrow> string \<Rightarrow> (NamingService \<Rightarrow> 'a promise) \<Rightarrow> 'a promise" where
  "withMethodOrThrow this domain body =
     (case getNamingMethodOrThrow this domain of Inl e \<Rightarrow> Rejected e | Inr method \<Rightarrow> body method)"

definition resolve :: "Resolution \<Rightarrow> string \<Rightarrow> ResolutionResponse promise" where
  "resolve this domain =
     withMethodOrThrow this domain (\<lambda>method.
       await (ns_resolve method domain) (\<lambda>result.
         Fulfilled (case result of None \<Rightarrow> UnclaimedDomainResponse | Some r \<Rightarrow> r)))"

definition addressOrThrow :: "Resolution \<Rightarrow> string \<Rightarrow> string \<Rightarrow> string promise" where
  "addressOrThrow this domain currencyTicker =
     withMethodOrThrow this domain (\<lambda>method.
       await (ns_address method domain currencyTicker) Fulfilled)"

definition address :: "Resolution \<Rightarrow> string \<Rightarrow> string \<Rightarrow> string option promise" where
  "address this domain currencyTicker =
     (case addressOrThrow this domain currencyTicker of
        Fulfilled a \<Rightarrow> Fulfilled (Some a)
      | Rejected e \<Rightarrow> if isResolutionError e then Fulfilled None else Rejected e
      | Pending \<Rightarrow> Pending)"

definition ipfsHash :: "Resolution \<Rightarrow> string \<Rightarrow> string promise" where
  "ipfsHash this domain =
     withMethodOrThrow this domain (\<lambda>method.
       await (ns_record method domain ''ipfs.html.value'') Fulfilled)"

definition ipfsRedirect :: "Resolution \<Rightarrow> string \<Rightarrow> string promise" where
  "ipfsRedirect this domain =
     withMethodOrThrow this domain (\<lambda>method.
       await (ns_record method domain ''ipfs.redirect_domain.value'') Fulfilled)"

definition email :: "Resolution \<Rightarrow> string \<Rightarrow> string promise" where
  "email this domain =
     withMethodOrThrow this domain (\<lambda>method.
       await (ns_record method domain ''whois.email.value'') Fulfilled)"

text \<open>
  Reading a property of a value that may be \<^verbatim>\<open>undefined\<close>: JavaScript raises a
  \<^verbatim>\<open>TypeError\<close> on \<^verbatim>\<open>undefined\<close>.
\<close>

definition member :: "'a option \<Rightarrow> error + 'a" where
  "member x = (case x of None \<Rightarrow> Inl TypeError | Some v \<Rightarrow> Inr v)"

text \<open>
  \<^verbatim>\<open>owner\<close> takes the result of \<^verbatim>\<open>getNamingMethod\<close> and reads \<^verbatim>\<open>method.owner\<close> with
  no test of \<^verbatim>\<open>method\<close>; \<^verbatim>\<open>|| null\<close> turns a falsy answer into \<^verbatim>\<open>null\<close>.
\<close>

definition owner :: "Resolution \<Rightarrow> string \<Rightarrow> string option promise" where
  "owner this domain =
     (case member (getNamingMethod this domain) of
        Inl e \<Rightarrow> Rejected e
      | Inr method \<Rightarrow>
          await (ns_owner method domain) (\<lambda>result.
            Fulfilled (if truthyString result then result else None)))"

text \<open>\<^verbatim>\<open>reverse\<close> reads \<^verbatim>\<open>this.ens.reverse\<close>, again with no test.\<close>

definition reverse :: "Resolution \<Rightarrow> string \<Rightarrow> string \<Rightarrow> string promise" where
  "reverse this addr currencyTicker =
     (case member (ens this) of
        Inl e \<Rightarrow> Rejected e
      | Inr e \<Rightarrow> await (ens_reverse e addr currencyTicker) Fulfilled)"

definition namehash :: "Resolution \<Rightarrow> string \<Rightarrow> error + string" where
  "namehash this domain =
     (case getNamingMethodOrThrow this domain of
        Inl e \<Rightarrow> Inl e
      | Inr method \<Rightarrow> ns_namehash method domain)"

definition isSupportedDomain :: "Resolution \<Rightarrow> string \<Rightarrow> bool" where
  "isSupportedDomain this domain = (getNamingMethod this domain \<noteq> None)"

text \<open>
  \<^verbatim>\<open>method && method.isSupportedNetwork()\<close>: the right operand is evaluated only when
  \<^verbatim>\<open>method\<close> is truthy; otherwise the value of \<^verbatim>\<open>method\<close>, \<^verbatim>\<open>undefined\<close>, is returned.
\<close>

definition isSupportedDomainInNetwork :: "Resolution \<Rightarrow> string \<Rightarrow> error + jsvalue" where
  "isSupportedDomainInNetwork this domain =
     (let method = getNamingMethod this domain
      in if method = None then Inr JSUndefined
         else (case member method of
                 Inl e \<Rightarrow> Inl e
               | Inr m \<Rightarrow> Inr (JSBoolean (ns_isSupportedNetwork m))))"

definition serviceName :: "Resolution \<Rightarrow> string \<Rightarrow> error + string" where
  "serviceName this domain =
     (case getNamingMethodOrThrow this domain of
        Inl e \<Rightarrow> Inl e
      | Inr method \<Rightarrow> ns_serviceName method domain)"

section \<open>The backend set, as the specification describes it\<close>

text \<open>
  The configured backends in their construction order: ENS, ZNS, CNS in direct mode,
  the proxy alone otherwise; a backend that was not constructed is left out.  This
  definition follows the words of the specification and is compared below with
  \<open>getNamingMethod\<close>, which follows the code.
\<close>

definition present :: "'a option \<Rightarrow> 'a list" where
  "present x = (case x of None \<Rightarrow> [] | Some v \<Rightarrow> [v])"

definition backends :: "Resolution \<Rightarrow> NamingService list" where
  "backends this =
     (if blockchain this
      then present (map_option NamingService.truncate (ens this)) @ present (zns this) @ present (cns this)
      else present (api this))"



section \<open>Example backends\<close>

text \<open>
  Four small backends on which the theorems below are run: they route by suffix as the
  test suite expects (\<^verbatim>\<open>.eth\<close>, \<^verbatim>\<open>.luxe\<close>, \<^verbatim>\<open>.xyz\<close> to ENS, \<^verbatim>\<open>.zil\<close> to ZNS,
  \<^verbatim>\<open>.crypto\<close> to CNS) and know one claimed domain, \<^verbatim>\<open>brad.zil\<close>, with an IPFS hash and
  no email.  The ENS example has an unreachable network: its requests fail with a
  transport error, and \<^verbatim>\<open>resolve\<close> never settles.
\<close>

definition endsWith :: "string \<Rightarrow> string \<Rightarrow> bool" where
  "endsWith s suffix = (drop (length s - length suffix) s = suffix)"

definition stubZns :: Zns where
  "stubZns =
     \<lparr>ns_isSupportedDomain = (\<lambda>d. endsWith d ''.zil''),
      ns_isSupportedNetwork = True,
      ns_resolve = (\<lambda>d. if d = ''brad.zil''
                          then Fulfilled (Some \<lparr>addresses = [''ZIL'' \<mapsto> ''zil1yu5u4hegy9v3xgluweg4en54zm8f8auwxu0xxj''],
                                                 meta = \<lparr>meta_owner = Some ''0x2d418942dce1afa02d0733a2000c71b371a6ac07''\<rparr>\<rparr>)
                          else Fulfilled None),
      ns_address = (\<lambda>d t. if d \<noteq> ''brad.zil''
                            then Rejected (ResolutionError UnregisteredDomain [(''domain'', d)])
                            else if t = ''ZIL''
                            then Fulfilled ''zil1yu5u4hegy9v3xgluweg4en54zm8f8auwxu0xxj''
                            else Rejected (ResolutionError UnspecifiedCurrency
                                             [(''domain'', d), (''currencyTicker'', t)])),
      ns_owner = (\<lambda>d. if d = ''brad.zil''
                        then Fulfilled (Some ''0x2d418942dce1afa02d0733a2000c71b371a6ac07'')
                        else Fulfilled None),
      ns_record = (\<lambda>d k. if d = ''brad.zil'' \<and> k = ''ipfs.html.value''
                           then Fulfilled ''QmVaAtQbi3EtsfpKoLzALm6vXphdi2KjMgxEDKeGg6wHuK''
                           else Rejected (ResolutionError RecordNotFound
                                            [(''domain'', d), (''recordName'', k)])),
      ns_namehash = (\<lambda>d. Inr (''zns:'' @ d)),
      ns_serviceName = (\<lambda>d. Inr ''ZNS'')\<rparr>"

definition stubEns :: Ens where
  "stubEns =
     \<lparr>ns_isSupportedDomain = (\<lambda>d. endsWith d ''.eth'' \<or> endsWith d ''.luxe'' \<or> endsWith d ''.xyz''),
      ns_isSupportedNetwork = False,
      ns_resolve = (\<lambda>d. Pending),
      ns_address = (\<lambda>d t. Rejected (OtherError ''request to https://mainnet.infura.io failed'')),
      ns_owner = (\<lambda>d. Fulfilled (Some [])),
      ns_record = (\<lambda>d k. Rejected (OtherError ''request to https://mainnet.infura.io failed'')),
      ns_namehash = (\<lambda>d. Inr (''ens:'' @ d)),
      ns_serviceName = (\<lambda>d. Inr ''ENS''),
      ens_reverse = (\<lambda>a t. if t = ''ETH'' then Fulfilled ''adrian.argent.xyz''
                             else Rejected (ResolutionError UnspecifiedCurrency [(''currencyTicker'', t)]))\<rparr>"

definition stubCns :: Cns where
  "stubCns =
     \<lparr>ns_isSupportedDomain = (\<lambda>d. endsWith d ''.crypto''),
      ns_isSupportedNetwork = True,
      ns_resolve = (\<lambda>d. Fulfilled None),
      ns_address = (\<lambda>d t. Rejected (ResolutionError UnregisteredDomain [(''domain'', d)])),
      ns_owner = (\<lambda>d. Fulfilled None),
      ns_record = (\<lambda>d k. Rejected (ResolutionError RecordNotFound
                                        [(''domain'', d), (''recordName'', k)])),
      ns_namehash = (\<lambda>d. Inr (''cns:'' @ d)),
      ns_serviceName = (\<lambda>d. Inr ''CNS'')\<rparr>"

definition stubUdapi :: "string \<Rightarrow> Udapi" where
  "stubUdapi u =
     \<lparr>ns_isSupportedDomain = (\<lambda>d. endsWith d ''.zil'' \<or> endsWith d ''.eth'' \<or> endsWith d ''.luxe''
                                   \<or> endsWith d ''.xyz'' \<or> endsWith d ''.crypto''),
      ns_isSupportedNetwork = True,
      ns_resolve = (\<lambda>d. Fulfilled None),
      ns_address = (\<lambda>d t. Rejected (ResolutionError UnregisteredDomain [(''domain'', d)])),
      ns_owner = (\<lambda>d. Fulfilled None),
      ns_record = (\<lambda>d k. Rejected (ResolutionError RecordNotFound
                                        [(''domain'', d), (''recordName'', k)])),
      ns_namehash = (\<lambda>d. Inr (u @ d)),
      ns_serviceName = (\<lambda>d. Inr (if endsWith d ''.zil'' then ''ZNS''
                                   else if endsWith d ''.crypto'' then ''CNS'' else ''ENS''))\<rparr>"

definition stubEnv :: Env where
  "stubEnv =
     \<lparr>newEns = (\<lambda>source. stubEns),
      newZns = (\<lambda>source. stubZns),
      newCns = (\<lambda>source. stubCns),
      newUdapi = stubUdapi,
      DefaultAPI = \<lparr>url = ''https://unstoppabledomains.com/api/v1''\<rparr>\<rparr>"

definition directResolution :: Resolution where
  "directResolution =
     \<lparr>blockchain = True, ens = Some stubEns, zns = Some stubZns, cns = Some stubCns, api = None\<rparr>"

definition proxyResolution :: Resolution where
  "proxyResolution =
     \<lparr>blockchain = False, ens = None, zns = None, cns = None,
      api = Some (stubUdapi ''https://unstoppabledomains.com/api/v1'')\<rparr>"

section \<open>Backend selection\<close>

lemma getNamingMethod_find:
  "getNamingMethod this domain = List.find (\<lambda>m. ns_isSupportedDomain m domain) (backends this)"
  by (cases "ens this"; cases "zns this"; cases "cns this"; cases "api this")
     (simp_all add: getNamingMethod_def methods_def backends_def present_def)

lemma await_Fulfilled: "await p Fulfilled = p"
  by (cases p) (simp_all add: await_def)

lemma getNamingMethod_direct_zil:
  "getNamingMethod directResolution ''brad.zil'' = Some stubZns"
  by (simp add: getNamingMethod_def methods_def directResolution_def stubEns_def stubZns_def
      NamingService.truncate_def endsWith_def)

lemma getNamingMethod_direct_qq:
  "getNamingMethod directResolution ''bogdangusiev.qq'' = None"
  by (simp add: getNamingMethod_def methods_def directResolution_def stubEns_def stubZns_def stubCns_def
      NamingService.truncate_def endsWith_def)

lemma constructor_default:
  "constructor stubEnv [] None =
     Some (Inr directResolution,
           [\<lparr>cfg_integrity = Extensible, cfg_ens = Value (SourceBoolean True),
             cfg_zns = Value (SourceBoolean True), cfg_cns = Value (SourceBoolean True)\<rparr>])"
  by (simp add: constructor_def blockchainParam_def alloc_def lookup_def setDefaults_def
      setDefault_def construct_def stubEnv_def directResolution_def)

text \<open>
  C1.  Backend selection walks the configured backends in their construction order,
  ENS, ZNS, CNS when \<^verbatim>\<open>this.blockchain\<close> is true and the proxy alone otherwise, and
  returns the first one whose \<^verbatim>\<open>isSupportedDomain(domain)\<close> holds; backends that
  were not constructed are skipped.  The throwing selector returns the same backend and
  throws \<^verbatim>\<open>UnsupportedDomain\<close> when there is none.
\<close>

theorem getNamingMethod_first_supported:
  "getNamingMethod this domain = List.find (\<lambda>m. ns_isSupportedDomain m domain) (backends this)
   \<and> getNamingMethodOrThrow this domain =
       (case List.find (\<lambda>m. ns_isSupportedDomain m domain) (backends this) of
          None \<Rightarrow> Inl (ResolutionError UnsupportedDomain [(''domain'', domain)])
        | Some m \<Rightarrow> Inr m)"
  by (simp add: getNamingMethodOrThrow_def getNamingMethod_find)

theorem getNamingMethod_first_supported_witness:
  "getNamingMethod directResolution ''brad.zil'' = Some stubZns
   \<and> List.find (\<lambda>m. ns_isSupportedDomain m ''brad.zil'') (backends directResolution) = Some stubZns
   \<and> getNamingMethodOrThrow directResolution ''brad.zil'' = Inr stubZns"
proof -
  note sel = getNamingMethod_first_supported [of directResolution "''brad.zil''"]
  have found: "List.find (\<lambda>m. ns_isSupportedDomain m ''brad.zil'') (backends directResolution) = Some stubZns"
    using sel getNamingMethod_direct_zil by simp
  show ?thesis
    using sel by (simp add: found)
qed

lemma withMethodOrThrow_None:
  "getNamingMethod this domain = None \<Longrightarrow>
   withMethodOrThrow this domain body = Rejected (ResolutionError UnsupportedDomain [(''domain'', domain)])"
  by (simp add: withMethodOrThrow_def getNamingMethodOrThrow_def)

lemma withMethodOrThrow_Some:
  "getNamingMethod this domain = Some m \<Longrightarrow> withMethodOrThrow this domain body = body m"
  by (simp add: withMethodOrThrow_def getNamingMethodOrThrow_def)

lemma getNamingMethod_None:
  "\<forall>m\<in>set (backends this). \<not> ns_isSupportedDomain m domain \<Longrightarrow> getNamingMethod this domain = None"
  by (simp add: getNamingMethod_find find_None_iff)

lemma backends_directResolution:
  "backends directResolution = [NamingService.truncate stubEns, stubZns, stubCns]"
  by (simp add: backends_def present_def directResolution_def)

lemma unsupported_direct_qq:
  "\<forall>m\<in>set (backends directResolution). \<not> ns_isSupportedDomain m ''bogdangusiev.qq''"
  by (simp add: backends_directResolution stubEns_def stubZns_def stubCns_def
      NamingService.truncate_def endsWith_def)

section \<open>Domains that no backend supports\<close>

text \<open>
  C4.  When no configured backend supports the domain, each throwing operation fails
  with a \<^verbatim>\<open>ResolutionError\<close> of code \<^verbatim>\<open>UnsupportedDomain\<close> whose options hold the
  domain: the asynchronous ones (\<^verbatim>\<open>resolve\<close>, \<^verbatim>\<open>addressOrThrow\<close>, \<^verbatim>\<open>ipfsHash\<close>,
  \<^verbatim>\<open>ipfsRedirect\<close>, \<^verbatim>\<open>email\<close>) by a rejected promise, \<^verbatim>\<open>namehash\<close> and
  \<^verbatim>\<open>serviceName\<close> by a synchronous throw; and \<^verbatim>\<open>isSupportedDomain\<close> is false.
\<close>

theorem unsupported_domain_fails:
  assumes "\<forall>m\<in>set (backends this). \<not> ns_isSupportedDomain m domain"
  shows "resolve this domain = Rejected (ResolutionError UnsupportedDomain [(''domain'', domain)])
       \<and> addressOrThrow this domain currencyTicker
           = Rejected (ResolutionError UnsupportedDomain [(''domain'', domain)])
       \<and> ipfsHash this domain = Rejected (ResolutionError UnsupportedDomain [(''domain'', domain)])
       \<and> ipfsRedirect this domain = Rejected (ResolutionError UnsupportedDomain [(''domain'', domain)])
       \<and> email this domain = Rejected (ResolutionError UnsupportedDomain [(''domain'', domain)])
       \<and> namehash this domain = Inl (ResolutionError UnsupportedDomain [(''domain'', domain)])
       \<and> serviceName this domain = Inl (ResolutionError UnsupportedDomain [(''domain'', domain)])
       \<and> isSupportedDomain this domain = False"
proof -
  have none: "getNamingMethod this domain = None"
    using assms by (rule getNamingMethod_None)
  have async: "\<And>body. withMethodOrThrow this domain body
                 = Rejected (ResolutionError UnsupportedDomain [(''domain'', domain)])"
    using none by (rule withMethodOrThrow_None)
  have sync: "getNamingMethodOrThrow this domain
                = Inl (ResolutionError UnsupportedDomain [(''domain'', domain)])"
    using none by (simp add: getNamingMethodOrThrow_def)
  show ?thesis
    by (simp add: resolve_def addressOrThrow_def ipfsHash_def ipfsRedirect_def email_def
        namehash_def serviceName_def isSupportedDomain_def async sync none)
qed

theorem unsupported_domain_fails_witness:
  "getNamingMethod directResolution ''bogdangusiev.qq'' = None
   \<and> resolve directResolution ''bogdangusiev.qq''
       = Rejected (ResolutionError UnsupportedDomain [(''domain'', ''bogdangusiev.qq'')])
   \<and> addressOrThrow directResolution ''bogdangusiev.qq'' ''ZIL''
       = Rejected (ResolutionError UnsupportedDomain [(''domain'', ''bogdangusiev.qq'')])
   \<and> email directResolution ''bogdangusiev.qq''
       = Rejected (ResolutionError UnsupportedDomain [(''domain'', ''bogdangusiev.qq'')])
   \<and> namehash directResolution ''bogdangusiev.qq''
       = Inl (ResolutionError UnsupportedDomain [(''domain'', ''bogdangusiev.qq'')])
   \<and> serviceName directResolution ''bogdangusiev.qq''
       = Inl (ResolutionError UnsupportedDomain [(''domain'', ''bogdangusiev.qq'')])
   \<and> \<not> isSupportedDomain directResolution ''bogdangusiev.qq''"
  using unsupported_domain_fails [OF unsupported_direct_qq, of "''ZIL''"] getNamingMethod_direct_qq
  by simp

section \<open>The owner of a domain\<close>

lemma owner_falsy:
  "getNamingMethod this domain = Some m \<Longrightarrow> ns_owner m domain = Fulfilled r \<Longrightarrow> \<not> truthyString r \<Longrightarrow>
   owner this domain = Fulfilled None"
  by (simp add: owner_def member_def await_def)

lemma owner_no_backend:
  "getNamingMethod this domain = None \<Longrightarrow> owner this domain = Rejected TypeError"
  by (simp add: owner_def member_def)

text \<open>
  C2.  The claim is that \<^verbatim>\<open>owner\<close> returns \<^verbatim>\<open>null\<close> for a domain that no backend
  supports.  On the dispatcher built by \<^verbatim>\<open>new Resolution()\<close> and the domain
  \<^verbatim>\<open>bogdangusiev.qq\<close> of the test suite, \<^verbatim>\<open>getNamingMethod\<close> returns \<^verbatim>\<open>undefined\<close>
  and \<^verbatim>\<open>method.owner\<close> raises a \<^verbatim>\<open>TypeError\<close>: the promise is rejected, not
  fulfilled with \<^verbatim>\<open>null\<close>.  (\<open>owner_falsy\<close> above is the half of the claim that holds.)
\<close>

theorem owner_unsupported_domain_TypeError:
  "constructor stubEnv [] None \<noteq> None
   \<and> map_option (\<lambda>(result, h). map_sum id (\<lambda>this. isSupportedDomain this ''bogdangusiev.qq'') result)
        (constructor stubEnv [] None) = Some (Inr False)
   \<and> map_option (\<lambda>(result, h). map_sum id (\<lambda>this. owner this ''bogdangusiev.qq'') result)
        (constructor stubEnv [] None) = Some (Inr (Rejected TypeError))
   \<and> map_option (\<lambda>(result, h). map_sum id (\<lambda>this. owner this ''bogdangusiev.qq'') result)
        (constructor stubEnv [] None) \<noteq> Some (Inr (Fulfilled None))"
  by (simp add: constructor_default owner_def member_def isSupportedDomain_def getNamingMethod_direct_qq)

section \<open>Resolving\<close>

lemma getNamingMethod_direct_unclaimed:
  "getNamingMethod directResolution ''sdncdoncvdinvcsdncs.zil'' = Some stubZns"
  by (simp add: getNamingMethod_def methods_def directResolution_def stubEns_def stubZns_def
      NamingService.truncate_def endsWith_def)

text \<open>
  C5.  When the selected backend's \<^verbatim>\<open>resolve\<close> answers \<^verbatim>\<open>null\<close> (the domain is
  recognised and unclaimed), \<^verbatim>\<open>resolve\<close> is fulfilled with the unclaimed sentinel,
  whose \<^verbatim>\<open>addresses\<close> are empty and whose owner is \<^verbatim>\<open>null\<close>; when the backend
  answers a response, \<^verbatim>\<open>resolve\<close> is fulfilled with that response.
\<close>

theorem resolve_unclaimed_sentinel:
  assumes "getNamingMethod this domain = Some m"
  shows "(ns_resolve m domain = Fulfilled None \<longrightarrow> resolve this domain = Fulfilled UnclaimedDomainResponse)
       \<and> (\<forall>r. ns_resolve m domain = Fulfilled (Some r) \<longrightarrow> resolve this domain = Fulfilled r)
       \<and> addresses UnclaimedDomainResponse = Map.empty
       \<and> meta_owner (meta UnclaimedDomainResponse) = None"
  using assms
  by (simp add: resolve_def withMethodOrThrow_Some await_def UnclaimedDomainResponse_def)

theorem resolve_unclaimed_sentinel_witness:
  "getNamingMethod directResolution ''sdncdoncvdinvcsdncs.zil'' = Some stubZns
   \<and> ns_resolve stubZns ''sdncdoncvdinvcsdncs.zil'' = Fulfilled None
   \<and> resolve directResolution ''sdncdoncvdinvcsdncs.zil'' = Fulfilled UnclaimedDomainResponse
   \<and> getNamingMethod directResolution ''brad.zil'' = Some stubZns
   \<and> ns_resolve stubZns ''brad.zil''
       = Fulfilled (Some \<lparr>addresses = [''ZIL'' \<mapsto> ''zil1yu5u4hegy9v3xgluweg4en54zm8f8auwxu0xxj''],
                           meta = \<lparr>meta_owner = Some ''0x2d418942dce1afa02d0733a2000c71b371a6ac07''\<rparr>\<rparr>)
   \<and> resolve directResolution ''brad.zil''
       = Fulfilled \<lparr>addresses = [''ZIL'' \<mapsto> ''zil1yu5u4hegy9v3xgluweg4en54zm8f8auwxu0xxj''],
                     meta = \<lparr>meta_owner = Some ''0x2d418942dce1afa02d0733a2000c71b371a6ac07''\<rparr>\<rparr>"
proof -
  have unclaimed: "ns_resolve stubZns ''sdncdoncvdinvcsdncs.zil'' = Fulfilled None"
    by (simp add: stubZns_def)
  have claimed: "ns_resolve stubZns ''brad.zil''
       = Fulfilled (Some \<lparr>addresses = [''ZIL'' \<mapsto> ''zil1yu5u4hegy9v3xgluweg4en54zm8f8auwxu0xxj''],
                           meta = \<lparr>meta_owner = Some ''0x2d418942dce1afa02d0733a2000c71b371a6ac07''\<rparr>\<rparr>)"
    by (simp add: stubZns_def)
  show ?thesis
    using resolve_unclaimed_sentinel [OF getNamingMethod_direct_unclaimed]
      resolve_unclaimed_sentinel [OF getNamingMethod_direct_zil]
      unclaimed claimed getNamingMethod_direct_unclaimed getNamingMethod_direct_zil
    by simp
qed

section \<open>Addresses\<close>

lemma getNamingMethod_direct_eth:
  "getNamingMethod directResolution ''domain.eth'' = Some (NamingService.truncate stubEns)"
  by (simp add: getNamingMethod_def methods_def directResolution_def stubEns_def
      NamingService.truncate_def endsWith_def)

lemma addressOrThrow_direct_qq:
  "addressOrThrow directResolution ''bogdangusiev.qq'' ''ZIL''
     = Rejected (ResolutionError UnsupportedDomain [(''domain'', ''bogdangusiev.qq'')])"
  by (simp add: addressOrThrow_def withMethodOrThrow_None getNamingMethod_direct_qq)

lemma addressOrThrow_direct_brad:
  "addressOrThrow directResolution ''brad.zil'' ''ZIL'' = Fulfilled ''zil1yu5u4hegy9v3xgluweg4en54zm8f8auwxu0xxj''"
  by (simp add: addressOrThrow_def withMethodOrThrow_Some [OF getNamingMethod_direct_zil] await_def stubZns_def)

lemma addressOrThrow_direct_eth:
  "addressOrThrow directResolution ''domain.eth'' ''ETH''
     = Rejected (OtherError ''request to https://mainnet.infura.io failed'')"
  by (simp add: addressOrThrow_def withMethodOrThrow_Some [OF getNamingMethod_direct_eth] await_def
      stubEns_def NamingService.truncate_def)

text \<open>
  C3.  \<^verbatim>\<open>address\<close> is never rejected with a \<^verbatim>\<open>ResolutionError\<close>; it is fulfilled
  with \<^verbatim>\<open>null\<close> exactly when \<^verbatim>\<open>addressOrThrow\<close> is rejected with a
  \<^verbatim>\<open>ResolutionError\<close>, of any code; it is fulfilled with the address that
  \<^verbatim>\<open>addressOrThrow\<close> is fulfilled with; and it is rejected with the same error when
  \<^verbatim>\<open>addressOrThrow\<close> is rejected with an error that is no \<^verbatim>\<open>ResolutionError\<close>.
\<close>

theorem address_never_raises_ResolutionError:
  "(\<forall>e. address this domain currencyTicker = Rejected e \<longrightarrow> \<not> isResolutionError e)
   \<and> (address this domain currencyTicker = Fulfilled None
        \<longleftrightarrow> (\<exists>e. addressOrThrow this domain currencyTicker = Rejected e \<and> isResolutionError e))
   \<and> (\<forall>a. addressOrThrow this domain currencyTicker = Fulfilled a
          \<longrightarrow> address this domain currencyTicker = Fulfilled (Some a))
   \<and> (\<forall>e. addressOrThrow this domain currencyTicker = Rejected e \<and> \<not> isResolutionError e
          \<longrightarrow> address this domain currencyTicker = Rejected e)"
  by (cases "addressOrThrow this domain currencyTicker") (auto simp: address_def)

theorem address_never_raises_ResolutionError_witness:
  "addressOrThrow directResolution ''bogdangusiev.qq'' ''ZIL''
     = Rejected (ResolutionError UnsupportedDomain [(''domain'', ''bogdangusiev.qq'')])
   \<and> address directResolution ''bogdangusiev.qq'' ''ZIL'' = Fulfilled None
   \<and> addressOrThrow directResolution ''brad.zil'' ''ZIL'' = Fulfilled ''zil1yu5u4hegy9v3xgluweg4en54zm8f8auwxu0xxj''
   \<and> address directResolution ''brad.zil'' ''ZIL'' = Fulfilled (Some ''zil1yu5u4hegy9v3xgluweg4en54zm8f8auwxu0xxj'')
   \<and> addressOrThrow directResolution ''domain.eth'' ''ETH''
       = Rejected (OtherError ''request to https://mainnet.infura.io failed'')
   \<and> address directResolution ''domain.eth'' ''ETH''
       = Rejected (OtherError ''request to https://mainnet.infura.io failed'')"
proof -
  have "address directResolution ''bogdangusiev.qq'' ''ZIL'' = Fulfilled None"
    using address_never_raises_ResolutionError [of directResolution "''bogdangusiev.qq''" "''ZIL''"]
      addressOrThrow_direct_qq by simp
  moreover have "address directResolution ''brad.zil'' ''ZIL''
                   = Fulfilled (Some ''zil1yu5u4hegy9v3xgluweg4en54zm8f8auwxu0xxj'')"
    using address_never_raises_ResolutionError [of directResolution "''brad.zil''" "''ZIL''"]
      addressOrThrow_direct_brad by simp
  moreover have "address directResolution ''domain.eth'' ''ETH''
                   = Rejected (OtherError ''request to https://mainnet.infura.io failed'')"
    using address_never_raises_ResolutionError [of directResolution "''domain.eth''" "''ETH''"]
      addressOrThrow_direct_eth by simp
  ultimately show ?thesis
    using addressOrThrow_direct_qq addressOrThrow_direct_brad addressOrThrow_direct_eth by simp
qed

section \<open>Support in the network\<close>

text \<open>
  C7.  \<^verbatim>\<open>isSupportedDomainInNetwork\<close> returns \<^verbatim>\<open>true\<close> exactly when some configured
  backend supports the domain and the first such backend, in order, reports that its
  network is supported.  It never throws.  When no backend supports the domain it
  returns \<^verbatim>\<open>undefined\<close>: a falsy value that is not the boolean \<^verbatim>\<open>false\<close>.
\<close>

theorem isSupportedDomainInNetwork_iff:
  "(isSupportedDomainInNetwork this domain = Inr (JSBoolean True)
      \<longleftrightarrow> (\<exists>m. List.find (\<lambda>m. ns_isSupportedDomain m domain) (backends this) = Some m
               \<and> ns_isSupportedNetwork m))
   \<and> (\<exists>v. isSupportedDomainInNetwork this domain = Inr v)
   \<and> (List.find (\<lambda>m. ns_isSupportedDomain m domain) (backends this) = None
        \<longrightarrow> isSupportedDomainInNetwork this domain = Inr JSUndefined
            \<and> \<not> truthy JSUndefined \<and> JSUndefined \<noteq> JSBoolean False)"
proof (cases "getNamingMethod this domain")
  case None
  then show ?thesis
    using getNamingMethod_find [of this domain]
    by (simp add: isSupportedDomainInNetwork_def)
next
  case (Some m)
  then show ?thesis
    using getNamingMethod_find [of this domain]
    by (auto simp: isSupportedDomainInNetwork_def member_def)
qed

theorem isSupportedDomainInNetwork_iff_witness:
  "isSupportedDomainInNetwork directResolution ''brad.zil'' = Inr (JSBoolean True)
   \<and> isSupportedDomainInNetwork directResolution ''domain.eth'' = Inr (JSBoolean False)
   \<and> List.find (\<lambda>m. ns_isSupportedDomain m ''bogdangusiev.qq'') (backends directResolution) = None
   \<and> isSupportedDomainInNetwork directResolution ''bogdangusiev.qq'' = Inr JSUndefined"
proof -
  have zil: "List.find (\<lambda>m. ns_isSupportedDomain m ''brad.zil'') (backends directResolution) = Some stubZns"
    using getNamingMethod_find [of directResolution "''brad.zil''"] getNamingMethod_direct_zil by simp
  have net: "ns_isSupportedNetwork stubZns"
    by (simp add: stubZns_def)
  have qq: "List.find (\<lambda>m. ns_isSupportedDomain m ''bogdangusiev.qq'') (backends directResolution) = None"
    using getNamingMethod_find [of directResolution "''bogdangusiev.qq''"] getNamingMethod_direct_qq by simp
  have "isSupportedDomainInNetwork directResolution ''brad.zil'' = Inr (JSBoolean True)"
    using isSupportedDomainInNetwork_iff [of directResolution "''brad.zil''"] zil net by simp
  moreover have "isSupportedDomainInNetwork directResolution ''bogdangusiev.qq'' = Inr JSUndefined"
    using isSupportedDomainInNetwork_iff [of directResolution "''bogdangusiev.qq''"] qq by simp
  moreover have "isSupportedDomainInNetwork directResolution ''domain.eth'' = Inr (JSBoolean False)"
    by (simp add: isSupportedDomainInNetwork_def getNamingMethod_direct_eth member_def
        NamingService.truncate_def stubEns_def)
  ultimately show ?thesis using qq by simp
qed

section \<open>Records\<close>

text \<open>
  C8.  With a backend selected, \<^verbatim>\<open>ipfsHash\<close>, \<^verbatim>\<open>ipfsRedirect\<close> and \<^verbatim>\<open>email\<close> settle
  as the backend's \<^verbatim>\<open>record\<close> does on the keys \<^verbatim>\<open>ipfs.html.value\<close>,
  \<^verbatim>\<open>ipfs.redirect_domain.value\<close> and \<^verbatim>\<open>whois.email.value\<close>: a value is returned as it
  is and an error is passed on unchanged, so that \<^verbatim>\<open>email\<close> fails with
  \<^verbatim>\<open>RecordNotFound\<close> when the backend finds no email record.
\<close>

theorem record_operations_keys:
  assumes "getNamingMethod this domain = Some m"
  shows "ipfsHash this domain = ns_record m domain ''ipfs.html.value''
       \<and> ipfsRedirect this domain = ns_record m domain ''ipfs.redirect_domain.value''
       \<and> email this domain = ns_record m domain ''whois.email.value''
       \<and> (\<forall>e. ns_record m domain ''whois.email.value'' = Rejected e \<longrightarrow> email this domain = Rejected e)"
  using assms
  by (simp add: ipfsHash_def ipfsRedirect_def email_def withMethodOrThrow_Some await_Fulfilled)

theorem record_operations_keys_witness:
  "getNamingMethod directResolution ''brad.zil'' = Some stubZns
   \<and> ipfsHash directResolution ''brad.zil'' = Fulfilled ''QmVaAtQbi3EtsfpKoLzALm6vXphdi2KjMgxEDKeGg6wHuK''
   \<and> ns_record stubZns ''brad.zil'' ''whois.email.value''
       = Rejected (ResolutionError RecordNotFound
                     [(''domain'', ''brad.zil''), (''recordName'', ''whois.email.value'')])
   \<and> email directResolution ''brad.zil''
       = Rejected (ResolutionError RecordNotFound
                     [(''domain'', ''brad.zil''), (''recordName'', ''whois.email.value'')])
   \<and> ipfsRedirect directResolution ''brad.zil''
       = Rejected (ResolutionError RecordNotFound
                     [(''domain'', ''brad.zil''), (''recordName'', ''ipfs.redirect_domain.value'')])"
proof -
  have hash: "ns_record stubZns ''brad.zil'' ''ipfs.html.value''
                = Fulfilled ''QmVaAtQbi3EtsfpKoLzALm6vXphdi2KjMgxEDKeGg6wHuK''"
    by (simp add: stubZns_def)
  have mail: "ns_record stubZns ''brad.zil'' ''whois.email.value''
                = Rejected (ResolutionError RecordNotFound
                     [(''domain'', ''brad.zil''), (''recordName'', ''whois.email.value'')])"
    by (simp add: stubZns_def)
  have redirect: "ns_record stubZns ''brad.zil'' ''ipfs.redirect_domain.value''
                = Rejected (ResolutionError RecordNotFound
                     [(''domain'', ''brad.zil''), (''recordName'', ''ipfs.redirect_domain.value'')])"
    by (simp add: stubZns_def)
  show ?thesis
    using record_operations_keys [OF getNamingMethod_direct_zil] getNamingMethod_direct_zil
    by (simp add: hash mail redirect)
qed

section \<open>Reverse resolution\<close>

text \<open>
  C9.  \<^verbatim>\<open>reverse\<close> goes to the ENS backend whatever its arguments are, with no
  selection by domain: it settles as the backend's \<^verbatim>\<open>reverse\<close> does.  When the ENS
  backend is not configured the call fails with a \<^verbatim>\<open>TypeError\<close>, which is no
  \<^verbatim>\<open>ResolutionError\<close>.
\<close>

theorem reverse_delegates_to_ens:
  "(\<forall>e. ens this = Some e \<longrightarrow> reverse this addr currencyTicker = ens_reverse e addr currencyTicker)
   \<and> (ens this = None
        \<longrightarrow> reverse this addr currencyTicker = Rejected TypeError \<and> \<not> isResolutionError TypeError)"
  by (simp add: reverse_def member_def await_Fulfilled)

theorem reverse_delegates_to_ens_witness:
  "ens directResolution = Some stubEns
   \<and> reverse directResolution ''0xb0E7a465D255aE83eb7F8a50504F3867B945164C'' ''ETH'' = Fulfilled ''adrian.argent.xyz''
   \<and> ens proxyResolution = None
   \<and> reverse proxyResolution ''0xb0E7a465D255aE83eb7F8a50504F3867B945164C'' ''ETH'' = Rejected TypeError"
proof -
  have direct: "ens directResolution = Some stubEns"
    by (simp add: directResolution_def)
  have proxy: "ens proxyResolution = None"
    by (simp add: proxyResolution_def)
  have answer: "ens_reverse stubEns ''0xb0E7a465D255aE83eb7F8a50504F3867B945164C'' ''ETH''
                  = Fulfilled ''adrian.argent.xyz''"
    by (simp add: stubEns_def)
  show ?thesis
    using reverse_delegates_to_ens [of directResolution "''0xb0E7a465D255aE83eb7F8a50504F3867B945164C''" "''ETH''"]
      reverse_delegates_to_ens [of proxyResolution "''0xb0E7a465D255aE83eb7F8a50504F3867B945164C''" "''ETH''"]
    by (simp add: direct proxy answer)
qed

section \<open>Construction from the configuration\<close>


















end
